theory Spec2Isabelle
  imports Main "HOL-Library.Sublist" "HOL-Library.Word" "HOL-Library.AList"
begin

section \<open>Archive extraction of lutris (lutris/util/extract.py)\<close>

text \<open>
  A shallow embedding of \<^verbatim>\<open>lutris/util/extract.py\<close>. Python strings are
  \<^typ>\<open>string\<close>; a value that may be \<^verbatim>\<open>None\<close> is an \<^typ>\<open>'a option\<close>;
  an exception is the left summand of a sum type. The file system is a tree of
  directories and files; external programs and codec libraries are fields of an
  environment record.
\<close>

subsection \<open>String helpers of the Python runtime\<close>

text \<open>\<^verbatim>\<open>str.endswith\<close> with one suffix.\<close>

definition endswith :: "string \<Rightarrow> string \<Rightarrow> bool" where
  "endswith p s = suffix s p"

text \<open>\<^verbatim>\<open>str.startswith\<close> with one prefix.\<close>

definition startswith :: "string \<Rightarrow> string \<Rightarrow> bool" where
  "startswith p s = prefix s p"

text \<open>\<^verbatim>\<open>str.lower\<close> on ASCII letters.\<close>

definition lower_char :: "char \<Rightarrow> char" where
  "lower_char c =
     (case map_of (zip ''ABCDEFGHIJKLMNOPQRSTUVWXYZ'' ''abcdefghijklmnopqrstuvwxyz'') c of
        Some l \<Rightarrow> l
      | None \<Rightarrow> c)"

definition lower :: "string \<Rightarrow> string" where
  "lower s = map lower_char s"

text \<open>\<^verbatim>\<open>str.lstrip(".")\<close>.\<close>

definition lstrip_dot :: "string \<Rightarrow> string" where
  "lstrip_dot s = dropWhile (\<lambda>c. c = CHR ''.'') s"

text \<open>\<^verbatim>\<open>str.rfind\<close> of one character: the last index, or \<open>-1\<close>.\<close>

definition rfind :: "string \<Rightarrow> char \<Rightarrow> int" where
  "rfind p c =
     (case filter (\<lambda>i. p ! i = c) (rev [0..<length p]) of
        [] \<Rightarrow> - 1
      | i # _ \<Rightarrow> int i)"

text \<open>
  The loop of \<^verbatim>\<open>genericpath._splitext\<close> that skips the leading dots of the file
  name: it runs over \<^verbatim>\<open>p[sepIndex+1:dotIndex]\<close> and stops at the first character
  that is not a dot.
\<close>

fun has_non_dot :: "string \<Rightarrow> bool" where
  "has_non_dot [] = False"
| "has_non_dot (c # cs) = (if c \<noteq> CHR ''.'' then True else has_non_dot cs)"

text \<open>\<^verbatim>\<open>os.path.splitext\<close> (posixpath).\<close>

definition splitext :: "string \<Rightarrow> string \<times> string" where
  "splitext p =
     (let sepIndex = rfind p CHR ''/'';
          dotIndex = rfind p CHR ''.''
      in if dotIndex > sepIndex \<and>
            has_non_dot (take (nat (dotIndex - (sepIndex + 1))) (drop (nat (sepIndex + 1)) p))
         then (take (nat dotIndex) p, drop (nat dotIndex) p)
         else (p, []))"

subsection \<open>Random identifiers\<close>

definition hex_digit :: "nat \<Rightarrow> char" where
  "hex_digit d = ''0123456789abcdef'' ! d"

text \<open>\<^verbatim>\<open>'%0<w>x' % n\<close> for \<open>n < 16 ^ w\<close>.\<close>

fun hex_pad :: "nat \<Rightarrow> nat \<Rightarrow> string" where
  "hex_pad 0 n = []"
| "hex_pad (Suc w) n = hex_pad w (n div 16) @ [hex_digit (n mod 16)]"

text \<open>
  \<^verbatim>\<open>str(uuid)\<close>: the 128-bit value as 32 hexadecimal digits, grouped
  8-4-4-4-12 with hyphens.
\<close>

definition uuid_str :: "128 word \<Rightarrow> string" where
  "uuid_str u =
     (let h = hex_pad 32 (unat u)
      in take 8 h @ ''-'' @ take 4 (drop 8 h) @ ''-'' @ take 4 (drop 12 h) @ ''-'' @
         take 4 (drop 16 h) @ ''-'' @ drop 20 h)"

text \<open>\<^verbatim>\<open>str(uuid.uuid4())[:8]\<close> for the UUID value \<open>u\<close>.\<close>

definition short_id :: "128 word \<Rightarrow> string" where
  "short_id u = take 8 (uuid_str u)"

definition is_lower_hex :: "char \<Rightarrow> bool" where
  "is_lower_hex c = (c \<in> set ''0123456789abcdef'')"

subsection \<open>Format detection\<close>

definition supported_extractors :: "string list" where
  "supported_extractors =
     [''7z'', ''xz'', ''bzip2'', ''gzip'', ''tar'', ''zip'', ''ar'', ''arj'', ''cab'', ''chm'',
      ''cpio'', ''cramfs'', ''dmg'', ''ext'', ''fat'', ''gpt'', ''hfs'', ''ihex'', ''iso'',
      ''lzh'', ''lzma'', ''mbr'', ''msi'', ''nsis'', ''ntfs'', ''qcow2'', ''rar'', ''rpm'',
      ''squashfs'', ''udf'', ''uefi'', ''vdi'', ''vhd'', ''vmdk'', ''wim'', ''xar'', ''z'',
      ''auto'']"

text \<open>
  \<^verbatim>\<open>is_7zip_supported(path, extractor)\<close>. The result \<open>None\<close> is Python's
  \<^verbatim>\<open>None\<close>, returned when the function body ends without a \<^verbatim>\<open>return\<close>.
  An extractor that is \<^verbatim>\<open>None\<close> or the empty string is falsy.
\<close>

definition is_7zip_supported :: "string \<Rightarrow> string option \<Rightarrow> bool option" where
  "is_7zip_supported path extractor =
     (case extractor of
        Some e \<Rightarrow>
          if e \<noteq> [] then Some (lower e \<in> set supported_extractors)
          else (let ext = snd (splitext path)
                in if ext \<noteq> [] then Some (lower (lstrip_dot ext) \<in> set supported_extractors)
                   else None)
      | None \<Rightarrow>
          (let ext = snd (splitext path)
           in if ext \<noteq> [] then Some (lower (lstrip_dot ext) \<in> set supported_extractors)
              else None))"

text \<open>\<^verbatim>\<open>guess_extractor(path)\<close>; \<open>None\<close> is Python's \<^verbatim>\<open>None\<close>.\<close>

definition guess_extractor :: "string \<Rightarrow> string option" where
  "guess_extractor path =
     (if endswith path ''.tar'' then Some ''tar''
      else if endswith path ''.tar.gz'' \<or> endswith path ''.tgz'' then Some ''tgz''
      else if endswith path ''.tar.xz'' \<or> endswith path ''.txz'' \<or> endswith path ''.tar.lzma''
        then Some ''txz''
      else if endswith path ''.tar.bz2'' \<or> endswith path ''.tbz2'' \<or> endswith path ''.tbz''
        then Some ''tbz2''
      else if endswith path ''.tar.zst'' \<or> endswith path ''.tzst'' then Some ''tzst''
      else if endswith path ''.gz'' then Some ''gzip''
      else if endswith path ''.exe'' then Some ''exe''
      else if endswith path ''.deb'' then Some ''deb''
      else if endswith path ''.AppImage'' then Some ''AppImage''
      else None)"

text \<open>
  The opener of \<^verbatim>\<open>get_archive_opener\<close>: \<^verbatim>\<open>tarfile.open\<close> or one of the string
  tags \<^verbatim>\<open>"gz"\<close>, \<^verbatim>\<open>"innoextract"\<close>, \<^verbatim>\<open>"exe"\<close>, \<^verbatim>\<open>"deb"\<close>, \<^verbatim>\<open>"AppImage"\<close>,
  \<^verbatim>\<open>"7zip"\<close>.
\<close>

datatype opener = TarfileOpen | Gz | Innoextract | Exe | Deb | AppImage | SevenZip

definition get_archive_opener :: "string option \<Rightarrow> opener \<times> string option" where
  "get_archive_opener extractor =
     (if extractor = Some ''tar'' then (TarfileOpen, Some ''r:'')
      else if extractor = Some ''tgz'' then (TarfileOpen, Some ''r:gz'')
      else if extractor = Some ''txz'' then (TarfileOpen, Some ''r:xz'')
      else if extractor = Some ''tbz2'' \<or> extractor = Some ''bz2'' then (TarfileOpen, Some ''r:bz2'')
      else if extractor = Some ''tzst'' then (TarfileOpen, Some ''r:zst'')
      else if extractor = Some ''gzip'' then (Gz, None)
      else if extractor = Some ''gog'' then (Innoextract, None)
      else if extractor = Some ''exe'' then (Exe, None)
      else if extractor = Some ''deb'' then (Deb, None)
      else if extractor = Some ''AppImage'' then (AppImage, None)
      else (SevenZip, None))"

subsection \<open>The file system\<close>

text \<open>
  A path is the list of its components below the root; \<^verbatim>\<open>os.path.join(p, name)\<close>
  with a single component \<open>name\<close> is \<open>p @ [name]\<close>, \<^verbatim>\<open>os.path.dirname\<close> is
  \<^const>\<open>butlast\<close> and \<^verbatim>\<open>os.path.basename\<close> is \<^const>\<open>last\<close>. Paths handed to
  the program are taken as absolute, so \<^verbatim>\<open>os.path.abspath\<close> is the identity. A file
  system is a tree: a file with its bytes, or a directory with its named entries.
\<close>

type_synonym path = "string list"

datatype node = File string | Dir "(string \<times> node) list"

fun lookup :: "node \<Rightarrow> path \<Rightarrow> node option" where
  "lookup t [] = Some t"
| "lookup (File b) (x # xs) = None"
| "lookup (Dir es) (x # xs) = (case map_of es x of None \<Rightarrow> None | Some c \<Rightarrow> lookup c xs)"

text \<open>
  \<open>put p v t\<close> stores \<open>v\<close> at \<open>p\<close> when the parent of \<open>p\<close> is a directory of
  \<open>t\<close>, and \<open>del p t\<close> removes the entry at \<open>p\<close>; both leave \<open>t\<close> alone when
  the parent is missing.
\<close>

fun put :: "path \<Rightarrow> node \<Rightarrow> node \<Rightarrow> node" where
  "put [] v t = v"
| "put (x # xs) v (File b) = File b"
| "put (x # xs) v (Dir es) =
     (if xs = [] then Dir (AList.update x v es)
      else case map_of es x of
             None \<Rightarrow> Dir es
           | Some c \<Rightarrow> Dir (AList.update x (put xs v c) es))"

fun del :: "path \<Rightarrow> node \<Rightarrow> node" where
  "del [] t = t"
| "del (x # xs) (File b) = File b"
| "del (x # xs) (Dir es) =
     (if xs = [] then Dir (AList.delete x es)
      else case map_of es x of
             None \<Rightarrow> Dir es
           | Some c \<Rightarrow> Dir (AList.update x (del xs c) es))"

definition is_dir :: "node option \<Rightarrow> bool" where
  "is_dir r = (case r of Some (Dir es) \<Rightarrow> True | _ \<Rightarrow> False)"

text \<open>The path as the string the program sees, and the string functions on it.\<close>

definition render :: "path \<Rightarrow> string" where
  "render p = concat (map (\<lambda>c. CHR ''/'' # c) p)"

definition basename :: "string \<Rightarrow> string" where
  "basename s = rev (takeWhile (\<lambda>c. c \<noteq> CHR ''/'') (rev s))"

fun components :: "string \<Rightarrow> string \<Rightarrow> path" where
  "components cur [] = (if cur = [] then [] else [cur])"
| "components cur (c # cs) =
     (if c = CHR ''/'' then (if cur = [] then components [] cs else cur # components [] cs)
      else components (cur @ [c]) cs)"

subsection \<open>Exceptions\<close>

datatype error =
    OSError string
  | ZlibError string
  | TarReadError string
  | EOFError string
  | RuntimeError string
  | MissingExecutableError string
  | ExtractError string
  | UnboundLocalError string
  | IndexError string

subsection \<open>Operations of \<^verbatim>\<open>os\<close>, \<^verbatim>\<open>os.path\<close> and \<^verbatim>\<open>shutil\<close>\<close>

text \<open>
  The library calls the program makes, on one file system without symbolic links.
  Every failure of a call is an \<^verbatim>\<open>OSError\<close> (its subclasses are not told apart).
\<close>

definition os_path_exists :: "node \<Rightarrow> path \<Rightarrow> bool" where
  "os_path_exists fs p = (lookup fs p \<noteq> None)"

definition os_path_isfile :: "node \<Rightarrow> path \<Rightarrow> bool" where
  "os_path_isfile fs p = (case lookup fs p of Some (File b) \<Rightarrow> True | _ \<Rightarrow> False)"

definition os_path_isdir :: "node \<Rightarrow> path \<Rightarrow> bool" where
  "os_path_isdir fs p = (case lookup fs p of Some (Dir es) \<Rightarrow> True | _ \<Rightarrow> False)"

definition os_listdir :: "node \<Rightarrow> path \<Rightarrow> error + string list" where
  "os_listdir fs p =
     (case lookup fs p of
        Some (Dir es) \<Rightarrow> Inr (map fst es)
      | Some (File b) \<Rightarrow> Inl (OSError ''Not a directory'')
      | None \<Rightarrow> Inl (OSError ''No such file or directory''))"

definition os_remove :: "node \<Rightarrow> path \<Rightarrow> error + node" where
  "os_remove fs p =
     (case lookup fs p of
        Some (File b) \<Rightarrow> Inr (del p fs)
      | Some (Dir es) \<Rightarrow> Inl (OSError ''Is a directory'')
      | None \<Rightarrow> Inl (OSError ''No such file or directory''))"

definition os_rmdir :: "node \<Rightarrow> path \<Rightarrow> error + node" where
  "os_rmdir fs p =
     (case lookup fs p of
        Some (Dir es) \<Rightarrow>
          if p = [] then Inl (OSError ''Device or resource busy'')
          else if es = [] then Inr (del p fs)
          else Inl (OSError ''Directory not empty'')
      | Some (File b) \<Rightarrow> Inl (OSError ''Not a directory'')
      | None \<Rightarrow> Inl (OSError ''No such file or directory''))"

text \<open>
  \<^verbatim>\<open>os.rename\<close>: a file replaces a file, a directory replaces an empty directory,
  and nothing moves into its own subtree.
\<close>

definition os_rename :: "node \<Rightarrow> path \<Rightarrow> path \<Rightarrow> error + node" where
  "os_rename fs src dst =
     (case lookup fs src of
        None \<Rightarrow> Inl (OSError ''No such file or directory'')
      | Some n \<Rightarrow>
          if src = dst then Inr fs
          else if prefix src dst then Inl (OSError ''Invalid argument'')
          else if \<not> os_path_isdir fs (butlast dst) then Inl (OSError ''No such file or directory'')
          else (case lookup fs dst of
                  None \<Rightarrow> Inr (put dst n (del src fs))
                | Some (File b) \<Rightarrow>
                    (case n of
                       File a \<Rightarrow> Inr (put dst n (del src fs))
                     | Dir es \<Rightarrow> Inl (OSError ''Not a directory''))
                | Some (Dir ds) \<Rightarrow>
                    (case n of
                       File a \<Rightarrow> Inl (OSError ''Is a directory'')
                     | Dir es \<Rightarrow>
                         if ds = [] then Inr (put dst n (del src fs))
                         else Inl (OSError ''Directory not empty''))))"

text \<open>
  \<^verbatim>\<open>shutil.move(src, dst)\<close>: into \<open>dst\<close> when that is a directory, refusing an
  existing \<open>dst/basename(src)\<close>; otherwise a rename.
\<close>

definition shutil_move :: "node \<Rightarrow> path \<Rightarrow> path \<Rightarrow> error + node" where
  "shutil_move fs src dst =
     (if os_path_isdir fs dst then
        (if src = dst then os_rename fs src dst
         else if src = [] then Inl (OSError ''Invalid argument'')
         else if os_path_exists fs (dst @ [last src])
           then Inl (OSError ''Destination path already exists'')
         else os_rename fs src (dst @ [last src]))
      else os_rename fs src dst)"

text \<open>\<^verbatim>\<open>shutil.copy(src, dst)\<close>: the bytes of a file, into \<open>dst\<close> when that is a directory.\<close>

definition shutil_copy :: "node \<Rightarrow> path \<Rightarrow> path \<Rightarrow> error + node" where
  "shutil_copy fs src dst =
     (if src = [] then Inl (OSError ''Is a directory'')
      else let real_dst = (if os_path_isdir fs dst then dst @ [last src] else dst)
      in case lookup fs src of
           Some (File b) \<Rightarrow>
             if src = real_dst then Inl (OSError ''are the same file'')
             else if os_path_isdir fs real_dst then Inl (OSError ''Is a directory'')
             else if \<not> os_path_isdir fs (butlast real_dst)
               then Inl (OSError ''No such file or directory'')
             else Inr (put real_dst (File b) fs)
         | Some (Dir es) \<Rightarrow> Inl (OSError ''Is a directory'')
         | None \<Rightarrow> Inl (OSError ''No such file or directory''))"

text \<open>\<^verbatim>\<open>os.makedirs\<close>: every missing directory on the way is created.\<close>

fun mkdir_p :: "path \<Rightarrow> node \<Rightarrow> node option" where
  "mkdir_p [] (Dir es) = Some (Dir es)"
| "mkdir_p [] (File b) = None"
| "mkdir_p (x # xs) (File b) = None"
| "mkdir_p (x # xs) (Dir es) =
     (case mkdir_p xs (case map_of es x of None \<Rightarrow> Dir [] | Some c \<Rightarrow> c) of
        None \<Rightarrow> None
      | Some c' \<Rightarrow> Some (Dir (AList.update x c' es)))"

definition os_makedirs :: "node \<Rightarrow> path \<Rightarrow> bool \<Rightarrow> error + node" where
  "os_makedirs fs p exist_ok =
     (if os_path_exists fs p then
        (if exist_ok \<and> os_path_isdir fs p then Inr fs else Inl (OSError ''File exists''))
      else case mkdir_p p fs of
             None \<Rightarrow> Inl (OSError ''Not a directory'')
           | Some fs' \<Rightarrow> Inr fs')"

text \<open>
  \<^verbatim>\<open>os.removedirs\<close>: the leaf must go; then each parent is removed until one
  refuses, and that error is ignored. The first argument of \<open>rmdir_parents\<close> is the
  parent path, last component first.
\<close>

fun rmdir_parents :: "path \<Rightarrow> node \<Rightarrow> node" where
  "rmdir_parents [] fs = fs"
| "rmdir_parents (x # xs) fs =
     (case os_rmdir fs (rev (x # xs)) of
        Inl e \<Rightarrow> fs
      | Inr fs' \<Rightarrow> rmdir_parents xs fs')"

definition os_removedirs :: "node \<Rightarrow> path \<Rightarrow> error + node" where
  "os_removedirs fs p =
     (case os_rmdir fs p of
        Inl e \<Rightarrow> Inl e
      | Inr fs' \<Rightarrow> Inr (rmdir_parents (rev (butlast p)) fs'))"

text \<open>\<^verbatim>\<open>open(p, "wb")\<close>: the file is created or truncated.\<close>

definition open_wb :: "node \<Rightarrow> path \<Rightarrow> error + node" where
  "open_wb fs p =
     (if p = [] \<or> last p = [] \<or> os_path_isdir fs p then Inl (OSError ''Is a directory'')
      else if \<not> os_path_isdir fs (butlast p) then Inl (OSError ''No such file or directory'')
      else Inr (put p (File []) fs))"

subsection \<open>The environment of an extraction\<close>

text \<open>
  What the program reaches outside itself. \<open>subprocess_call\<close> is
  \<^verbatim>\<open>subprocess.call(command)\<close>: the exit code of the external program and the file
  system it leaves. \<open>tarfile_extractall\<close> is \<^verbatim>\<open>tarfile.open(archive, mode)\<close>
  followed by \<^verbatim>\<open>extractall(dest)\<close> and \<^verbatim>\<open>close()\<close>; \<open>gzip_decompress\<close> is the
  decoding done by \<^verbatim>\<open>gzip.open(...).read()\<close>; \<open>uuid4\<close> gives the value of the
  \<open>n\<close>-th call of \<^verbatim>\<open>uuid.uuid4()\<close>. \<open>which\<close> is the lookup of a program on the
  system \<^verbatim>\<open>PATH\<close>. \<open>RUNTIME_DIR\<close> is \<^verbatim>\<open>settings.RUNTIME_DIR\<close> and
  \<open>merge_folders\<close> is \<^verbatim>\<open>system.merge_folders\<close>, both defined outside
  \<^verbatim>\<open>extract.py\<close> and taken as parameters.
\<close>

datatype arg = Lit string | Path path | OptPath string path

record env =
  RUNTIME_DIR :: path
  which :: "string \<Rightarrow> path option"
  subprocess_call :: "node \<Rightarrow> arg list \<Rightarrow> int \<times> node"
  tarfile_extractall :: "node \<Rightarrow> path \<Rightarrow> string option \<Rightarrow> path \<Rightarrow> error + node"
  gzip_decompress :: "string \<Rightarrow> error + string"
  merge_folders :: "node \<Rightarrow> path \<Rightarrow> path \<Rightarrow> error + node"
  uuid4 :: "nat \<Rightarrow> 128 word"

text \<open>The state an extraction changes: the file system and the number of UUIDs drawn.\<close>

record world =
  files :: node
  draws :: nat

text \<open>\<^verbatim>\<open>random_id()\<close>.\<close>

definition random_id :: "env \<Rightarrow> world \<Rightarrow> string \<times> world" where
  "random_id env w = (short_id (uuid4 env (draws w)), w\<lparr>draws := Suc (draws w)\<rparr>)"

text \<open>
  Modelled from the spec: \<^verbatim>\<open>system.path_exists\<close>, which is not part of
  \<^verbatim>\<open>extract.py\<close>; the spec tests whether an entry exists at the path.
\<close>

definition path_exists :: "node \<Rightarrow> path \<Rightarrow> bool" where
  "path_exists fs p = os_path_exists fs p"

text \<open>
  Modelled from the spec: \<^verbatim>\<open>system.find_executable\<close>, which is not part of
  \<^verbatim>\<open>extract.py\<close>; the spec has it look the program up on the system \<^verbatim>\<open>PATH\<close> and
  raise a missing-executable condition when there is none.
\<close>

definition find_executable :: "env \<Rightarrow> string \<Rightarrow> error + path" where
  "find_executable env exec_name =
     (case which env exec_name of
        Some p \<Rightarrow> Inr p
      | None \<Rightarrow> Inl (MissingExecutableError exec_name))"

text \<open>
  Modelled from the spec: \<^verbatim>\<open>system.create_folder\<close>, which is not part of
  \<^verbatim>\<open>extract.py\<close>; the spec has the directory created before the tool runs, and an
  existing directory is kept.
\<close>

definition create_folder :: "node \<Rightarrow> path \<Rightarrow> error + node" where
  "create_folder fs p = os_makedirs fs p True"

text \<open>
  Modelled from the spec: \<^verbatim>\<open>system.delete_folder\<close>, which is not part of
  \<^verbatim>\<open>extract.py\<close>; the spec has it delete the staging directory tree entirely.
\<close>

definition delete_folder :: "node \<Rightarrow> path \<Rightarrow> node" where
  "delete_folder fs p = (if os_path_isdir fs p \<and> p \<noteq> [] then del p fs else fs)"

subsection \<open>The extraction backends\<close>

text \<open>\<^verbatim>\<open>extract_7zip(path, dest, archive_type)\<close>: the exit code of the call is dropped.\<close>

definition extract_7zip :: "env \<Rightarrow> node \<Rightarrow> path \<Rightarrow> path \<Rightarrow> string option \<Rightarrow> error + node" where
  "extract_7zip env fs path dest archive_type =
     (case (if \<not> path_exists fs (RUNTIME_DIR env @ [''p7zip'', ''7z''])
            then find_executable env ''7z''
            else Inr (RUNTIME_DIR env @ [''p7zip'', ''7z''])) of
        Inl e \<Rightarrow> Inl e
      | Inr p7zip_path \<Rightarrow>
          (let command = [Path p7zip_path, Lit ''x'', Path path, OptPath ''-o'' dest, Lit ''-aoa''] @
                 (case archive_type of
                    Some t \<Rightarrow> if t \<noteq> [] \<and> t \<noteq> ''auto'' then [Lit (''-t'' @ t)] else []
                  | None \<Rightarrow> [])
           in Inr (snd (subprocess_call env fs command))))"

text \<open>\<^verbatim>\<open>get_innoextract_path()\<close>.\<close>

definition get_innoextract_path :: "env \<Rightarrow> node \<Rightarrow> error + path" where
  "get_innoextract_path env fs =
     (case os_listdir fs (RUNTIME_DIR env) of
        Inl e \<Rightarrow> Inl e
      | Inr names \<Rightarrow>
          (case find (\<lambda>inno_dir. path_exists fs (RUNTIME_DIR env @ [inno_dir, ''innoextract'']))
                  (filter (\<lambda>p. startswith p ''innoextract'') names) of
             Some inno_dir \<Rightarrow> Inr (RUNTIME_DIR env @ [inno_dir, ''innoextract''])
           | None \<Rightarrow> find_executable env ''innoextract''))"

text \<open>
  \<^verbatim>\<open>check_inno_exe(path)\<close>: only \<^verbatim>\<open>MissingExecutableError\<close> is caught; the result
  carries the file system the probe leaves.
\<close>

definition check_inno_exe :: "env \<Rightarrow> node \<Rightarrow> path \<Rightarrow> error + bool \<times> node" where
  "check_inno_exe env fs path =
     (case get_innoextract_path env fs of
        Inl (MissingExecutableError m) \<Rightarrow> Inr (False, fs)
      | Inl e \<Rightarrow> Inl e
      | Inr innoextract_path \<Rightarrow>
          (let r = subprocess_call env fs [Path innoextract_path, Lit ''-i'', Path path]
           in Inr (fst r = 0, snd r)))"

text \<open>\<^verbatim>\<open>decompress_gog(file_path, destination_path)\<close>.\<close>

definition decompress_gog :: "env \<Rightarrow> node \<Rightarrow> path \<Rightarrow> path \<Rightarrow> error + node" where
  "decompress_gog env fs file_path destination_path =
     (case get_innoextract_path env fs of
        Inl e \<Rightarrow> Inl e
      | Inr innoextract_path \<Rightarrow>
          (case create_folder fs destination_path of
             Inl e \<Rightarrow> Inl e
           | Inr fs1 \<Rightarrow>
               (let r = subprocess_call env fs1
                      [Path innoextract_path, Lit ''-m'', Lit ''-g'', Lit ''-d'',
                       Path destination_path, Lit ''-e'', Path file_path]
                in if fst r \<noteq> 0
                   then Inl (RuntimeError ''innoextract failed to extract GOG setup file'')
                   else Inr (snd r))))"

text \<open>\<^verbatim>\<open>extract_gog(path, dest)\<close>.\<close>

definition extract_gog :: "env \<Rightarrow> node \<Rightarrow> path \<Rightarrow> path \<Rightarrow> error + node" where
  "extract_gog env fs path dest =
     (case check_inno_exe env fs path of
        Inl e \<Rightarrow> Inl e
      | Inr (ok, fs1) \<Rightarrow>
          if ok then decompress_gog env fs1 path dest
          else Inl (RuntimeError ''specified exe is not a GOG setup file''))"

text \<open>\<^verbatim>\<open>extract_exe(path, dest)\<close>.\<close>

definition extract_exe :: "env \<Rightarrow> node \<Rightarrow> path \<Rightarrow> path \<Rightarrow> error + node" where
  "extract_exe env fs path dest =
     (case check_inno_exe env fs path of
        Inl e \<Rightarrow> Inl e
      | Inr (ok, fs1) \<Rightarrow>
          if ok then decompress_gog env fs1 path dest
          else (case (if \<not> path_exists fs1 (RUNTIME_DIR env @ [''p7zip'', ''7za''])
                      then find_executable env ''7za''
                      else Inr (RUNTIME_DIR env @ [''p7zip'', ''7za''])) of
                  Inl e \<Rightarrow> Inl e
                | Inr p7zip_path \<Rightarrow>
                    (let r = subprocess_call env fs1 [Path p7zip_path, Lit ''t'', Path path]
                     in if fst r = 0 then extract_7zip env (snd r) path dest None
                        else Inl (RuntimeError
                                    ''specified exe is not an archive or GOG setup file''))))"

text \<open>\<^verbatim>\<open>extract_AppImage(path, dest)\<close>.\<close>

definition extract_AppImage :: "node \<Rightarrow> path \<Rightarrow> path \<Rightarrow> error + node" where
  "extract_AppImage fs path dest =
     (case create_folder fs dest of
        Inl e \<Rightarrow> Inl e
      | Inr fs1 \<Rightarrow> shutil_copy fs1 path dest)"

text \<open>\<^verbatim>\<open>gzip.open(p, "rb").read()\<close>.\<close>

definition gzip_open_read :: "env \<Rightarrow> node \<Rightarrow> path \<Rightarrow> error + string" where
  "gzip_open_read env fs p =
     (case lookup fs p of
        Some (File b) \<Rightarrow> gzip_decompress env b
      | Some (Dir es) \<Rightarrow> Inl (OSError ''Is a directory'')
      | None \<Rightarrow> Inl (OSError ''No such file or directory''))"

text \<open>
  \<^verbatim>\<open>decompress_gz(file_path, dest_path)\<close>; \<open>stripped\<close> is \<^verbatim>\<open>file_path[:-3]\<close>, and
  an empty \<open>dest_path\<close> is falsy.
\<close>

definition decompress_gz :: "env \<Rightarrow> node \<Rightarrow> path \<Rightarrow> path \<Rightarrow> error + node" where
  "decompress_gz env fs file_path dest_path =
     (let stripped = take (length (render file_path) - 3) (render file_path);
          dest_filename = (if dest_path \<noteq> [] then dest_path @ [basename stripped]
                           else components [] stripped)
      in case os_makedirs fs (butlast dest_filename) True of
           Inl e \<Rightarrow> Inl e
         | Inr fs1 \<Rightarrow>
             (case open_wb fs1 dest_filename of
                Inl e \<Rightarrow> Inl e
              | Inr fs2 \<Rightarrow>
                  (case gzip_open_read env fs2 file_path of
                     Inl e \<Rightarrow> Inl e
                   | Inr data \<Rightarrow> Inr (put dest_filename (File data) fs2))))"

subsection \<open>Merging the staged content into the destination\<close>

text \<open>
  The loop of \<^verbatim>\<open>extract_archive\<close> over \<^verbatim>\<open>os.listdir(temp_path)\<close>, one staged entry
  after the other. An \<^verbatim>\<open>OSError\<close> of \<^verbatim>\<open>merge_folders\<close> is raised again as
  \<^verbatim>\<open>ExtractError\<close>.
\<close>

fun merge_entries :: "env \<Rightarrow> node \<Rightarrow> path \<Rightarrow> path \<Rightarrow> string list \<Rightarrow> error + node" where
  "merge_entries env fs temp_path to_directory [] = Inr fs"
| "merge_entries env fs temp_path to_directory (archive_file # rest) =
     (let source_path = temp_path @ [archive_file];
          destination_path = to_directory @ [archive_file]
      in case (if path_exists fs destination_path then
                 (if os_path_isfile fs destination_path then
                    (case os_remove fs destination_path of
                       Inl e \<Rightarrow> Inl e
                     | Inr fs1 \<Rightarrow> shutil_move fs1 source_path destination_path)
                  else if os_path_isdir fs destination_path then
                    (case merge_folders env fs source_path destination_path of
                       Inl (OSError m) \<Rightarrow> Inl (ExtractError m)
                     | Inl e \<Rightarrow> Inl e
                     | Inr fs1 \<Rightarrow> Inr fs1)
                  else Inr fs)
               else shutil_move fs source_path destination_path) of
           Inl e \<Rightarrow> Inl e
         | Inr fs' \<Rightarrow> merge_entries env fs' temp_path to_directory rest)"

text \<open>
  The branch of \<^verbatim>\<open>extract_archive\<close> taken when \<^verbatim>\<open>temp_path\<close> is a regular file;
  \<open>name\<close> is \<^verbatim>\<open>extracted[0]\<close>.
\<close>

definition place_single_file ::
  "env \<Rightarrow> world \<Rightarrow> path \<Rightarrow> path \<Rightarrow> path \<Rightarrow> string \<Rightarrow> error + world" where
  "place_single_file env w temp_path temp_dir to_directory name =
     (let destination_path = to_directory @ [name]
      in case (if os_path_isfile (files w) destination_path
               then os_remove (files w) destination_path else Inr (files w)) of
           Inl e \<Rightarrow> Inl e
         | Inr fs1 \<Rightarrow>
             (case (if os_path_isdir fs1 destination_path
                    then (case os_rename fs1 destination_path
                                 (to_directory @ [name @ fst (random_id env w)]) of
                            Inl e \<Rightarrow> Inl e
                          | Inr fs2 \<Rightarrow> Inr (snd (random_id env w)\<lparr>files := fs2\<rparr>))
                    else Inr (w\<lparr>files := fs1\<rparr>)) of
                Inl e \<Rightarrow> Inl e
              | Inr w2 \<Rightarrow>
                  (case shutil_move (files w2) temp_path to_directory of
                     Inl e \<Rightarrow> Inl e
                   | Inr fs3 \<Rightarrow>
                       (case os_removedirs fs3 temp_dir of
                          Inl e \<Rightarrow> Inl e
                        | Inr fs4 \<Rightarrow> Inr (w2\<lparr>files := fs4\<rparr>)))))"

text \<open>
  The part of \<^verbatim>\<open>extract_archive\<close> after the backend has returned. \<open>extracted\<close> is
  \<open>None\<close> while the Python variable is unbound, which is the case without
  \<^verbatim>\<open>merge_single\<close>.
\<close>

definition merge_staged ::
  "env \<Rightarrow> world \<Rightarrow> path \<Rightarrow> path \<Rightarrow> bool \<Rightarrow> error + world" where
  "merge_staged env w temp_dir to_directory merge_single =
     (case (if merge_single
            then (case os_listdir (files w) temp_dir of Inl e \<Rightarrow> Inl e | Inr l \<Rightarrow> Inr (Some l))
            else Inr None) of
        Inl e \<Rightarrow> Inl e
      | Inr extracted \<Rightarrow>
          (let temp_path = (case extracted of Some [x] \<Rightarrow> temp_dir @ [x] | _ \<Rightarrow> temp_dir)
           in if os_path_isfile (files w) temp_path then
                (case extracted of
                   None \<Rightarrow> Inl (UnboundLocalError ''extracted'')
                 | Some [] \<Rightarrow> Inl (IndexError ''list index out of range'')
                 | Some (x # xs) \<Rightarrow> place_single_file env w temp_path temp_dir to_directory x)
              else
                (case os_listdir (files w) temp_path of
                   Inl e \<Rightarrow> Inl e
                 | Inr names \<Rightarrow>
                     (case merge_entries env (files w) temp_path to_directory names of
                        Inl e \<Rightarrow> Inl e
                      | Inr fs1 \<Rightarrow> Inr (w\<lparr>files := delete_folder fs1 temp_dir\<rparr>)))))"

subsection \<open>\<^verbatim>\<open>extract_archive\<close>, \<^verbatim>\<open>_do_extract\<close> and \<^verbatim>\<open>extract_deb\<close>\<close>

text \<open>
  The exceptions named in the \<^verbatim>\<open>except\<close> clause of \<^verbatim>\<open>extract_archive\<close>, with
  \<^verbatim>\<open>str(ex)\<close>.
\<close>

definition caught :: "error \<Rightarrow> string option" where
  "caught e =
     (case e of
        OSError m \<Rightarrow> Some m
      | ZlibError m \<Rightarrow> Some m
      | TarReadError m \<Rightarrow> Some m
      | EOFError m \<Rightarrow> Some m
      | _ \<Rightarrow> None)"

definition control_file_exts :: "string list" where
  "control_file_exts = [''.gz'', ''.xz'', ''.zst'', '''']"

definition data_file_exts :: "string list" where
  "data_file_exts = [''.gz'', ''.xz'', ''.zst'', ''.bz2'', ''.lzma'', '''']"

text \<open>The extractor after \<^verbatim>\<open>if extractor is None: extractor = guess_extractor(path)\<close>.\<close>

definition resolve :: "path \<Rightarrow> string option \<Rightarrow> string option" where
  "resolve path extractor = (if extractor = None then guess_extractor (render path) else extractor)"

text \<open>\<^verbatim>\<open>os.path.join(to_directory, ".extract-%s" % random_id())\<close>.\<close>

definition staging_dir :: "env \<Rightarrow> world \<Rightarrow> path \<Rightarrow> path" where
  "staging_dir env w to_directory = to_directory @ [''.extract-'' @ fst (random_id env w)]"

text \<open>
  The three functions call each other: \<^verbatim>\<open>extract_archive\<close> runs the backend through
  \<^verbatim>\<open>_do_extract\<close>, whose Debian backend \<^verbatim>\<open>extract_deb\<close> extracts the inner
  \<^verbatim>\<open>data.tar*\<close> with \<^verbatim>\<open>extract_archive\<close> again. Each \<^verbatim>\<open>for ... if ...: ...; break\<close>
  loop of \<^verbatim>\<open>extract_deb\<close> is a \<^const>\<open>find\<close> of the first extension whose file
  exists. \<^verbatim>\<open>extract_archive\<close> returns the pair of its two path arguments, with the
  state it leaves.
\<close>

function extract_archive ::
    "env \<Rightarrow> world \<Rightarrow> path \<Rightarrow> path \<Rightarrow> bool \<Rightarrow> string option \<Rightarrow> error + (path \<times> path) \<times> world"
  and do_extract ::
    "env \<Rightarrow> world \<Rightarrow> path \<Rightarrow> path \<Rightarrow> opener \<Rightarrow> string option \<Rightarrow> string option \<Rightarrow> error + world"
  and extract_deb :: "env \<Rightarrow> world \<Rightarrow> path \<Rightarrow> path \<Rightarrow> error + world"
where
  "extract_archive env w path to_directory merge_single extractor =
     (case do_extract env (snd (random_id env w)) path (staging_dir env w to_directory)
             (fst (get_archive_opener (resolve path extractor)))
             (snd (get_archive_opener (resolve path extractor)))
             (resolve path extractor) of
        Inl ex \<Rightarrow>
          (case caught ex of
             Some m \<Rightarrow> Inl (ExtractError m)
           | None \<Rightarrow> Inl ex)
      | Inr w1 \<Rightarrow>
          (case merge_staged env w1 (staging_dir env w to_directory) to_directory merge_single of
             Inl e \<Rightarrow> Inl e
           | Inr w2 \<Rightarrow> Inr ((path, to_directory), w2)))"
| "do_extract env w archive dest opener mode extractor =
     (if opener = Gz then
        (case decompress_gz env (files w) archive dest of
           Inl e \<Rightarrow> Inl e | Inr f \<Rightarrow> Inr (w\<lparr>files := f\<rparr>))
      else if opener = SevenZip then
        (case extract_7zip env (files w) archive dest extractor of
           Inl e \<Rightarrow> Inl e | Inr f \<Rightarrow> Inr (w\<lparr>files := f\<rparr>))
      else if opener = Exe then
        (case extract_exe env (files w) archive dest of
           Inl e \<Rightarrow> Inl e | Inr f \<Rightarrow> Inr (w\<lparr>files := f\<rparr>))
      else if opener = Innoextract then
        (case extract_gog env (files w) archive dest of
           Inl e \<Rightarrow> Inl e | Inr f \<Rightarrow> Inr (w\<lparr>files := f\<rparr>))
      else if opener = Deb then extract_deb env w archive dest
      else if opener = AppImage then
        (case extract_AppImage (files w) archive dest of
           Inl e \<Rightarrow> Inl e | Inr f \<Rightarrow> Inr (w\<lparr>files := f\<rparr>))
      else
        (case tarfile_extractall env (files w) archive mode dest of
           Inl e \<Rightarrow> Inl e | Inr f \<Rightarrow> Inr (w\<lparr>files := f\<rparr>)))"
| "extract_deb env w archive dest =
     (case extract_7zip env (files w) archive dest (Some ''ar'') of
        Inl e \<Rightarrow> Inl e
      | Inr fs1 \<Rightarrow>
          (case os_makedirs fs1 (dest @ [''debian'']) False of
             Inl e \<Rightarrow> Inl e
           | Inr fs2 \<Rightarrow>
               (case (case find (\<lambda>extension. os_path_exists fs2 (dest @ [''control.tar'' @ extension]))
                              control_file_exts of
                        Some extension \<Rightarrow>
                          shutil_move fs2 (dest @ [''control.tar'' @ extension]) (dest @ [''debian''])
                      | None \<Rightarrow> Inr fs2) of
                  Inl e \<Rightarrow> Inl e
                | Inr fs3 \<Rightarrow>
                    (case find (\<lambda>extension. os_path_exists fs3 (dest @ [''data.tar'' @ extension]))
                            data_file_exts of
                       Some extension \<Rightarrow>
                         (case extract_archive env (w\<lparr>files := fs3\<rparr>) (dest @ [''data.tar'' @ extension])
                                 dest True None of
                            Inl e \<Rightarrow> Inl e
                          | Inr r \<Rightarrow>
                              (case os_remove (files (snd r)) (dest @ [''data.tar'' @ extension]) of
                                 Inl e \<Rightarrow> Inl e
                               | Inr fs4 \<Rightarrow> Inr ((snd r)\<lparr>files := fs4\<rparr>)))
                     | None \<Rightarrow> Inr (w\<lparr>files := fs3\<rparr>)))))"
  by pat_completeness auto

text \<open>
  The recursion ends: the archive \<^verbatim>\<open>extract_deb\<close> hands back to
  \<^verbatim>\<open>extract_archive\<close> is named \<^verbatim>\<open>data.tar\<close> with one of six extensions, each of
  which \<^verbatim>\<open>guess_extractor\<close> gives to \<^verbatim>\<open>tarfile\<close>, never to the Debian backend.
\<close>

termination
proof (relation "measure (\<lambda>x. case x of
       Inl (env, w, path, to_directory, merge_single, extractor) \<Rightarrow>
         (if fst (get_archive_opener (resolve path extractor)) = Deb then 5 else 2)
     | Inr (Inl (env, w, archive, dest, opener, mode, extractor)) \<Rightarrow>
         (if opener = Deb then 4 else 1)
     | Inr (Inr (env, w, archive, dest)) \<Rightarrow> 3)", goal_cases)
  case 1
  show ?case by simp
next
  case 2
  show ?case by simp
next
  case 3
  then show ?case by simp
next
  case (4 env w archive dest fs1 fs2 fs3 extension)
  have excl: "\<not> endswith p b" if "endswith p a" "\<not> suffix a b" "\<not> suffix b a" for p a b
    using that unfolding endswith_def by (meson suffix_same_cases)
  have rend: "endswith (render (dest @ [n])) s" if "suffix s n" for s n
    using that by (simp add: render_def endswith_def suffix_def) (metis append.assoc append_Cons)
  from 4(4) have "extension \<in> set data_file_exts"
    by (auto simp: find_Some_iff)
  then consider "extension = ''.gz''" | "extension = ''.xz''" | "extension = ''.zst''"
    | "extension = ''.bz2''" | "extension = ''.lzma''" | "extension = ''''"
    by (auto simp: data_file_exts_def)
  then have "fst (get_archive_opener (guess_extractor (render (dest @ [''data.tar'' @ extension]))))
      = TarfileOpen"
  proof cases
    case 1
    have e: "endswith (render (dest @ [''data.tar.gz''])) ''.tar.gz''"
      by (rule rend) (simp add: suffix_to_prefix)
    have "guess_extractor (render (dest @ [''data.tar.gz''])) = Some ''tgz''"
      by (simp add: guess_extractor_def suffix_to_prefix excl [OF e] e)
    with 1 show ?thesis by (simp add: get_archive_opener_def)
  next
    case 2
    have e: "endswith (render (dest @ [''data.tar.xz''])) ''.tar.xz''"
      by (rule rend) (simp add: suffix_to_prefix)
    have "guess_extractor (render (dest @ [''data.tar.xz''])) = Some ''txz''"
      by (simp add: guess_extractor_def suffix_to_prefix excl [OF e] e)
    with 2 show ?thesis by (simp add: get_archive_opener_def)
  next
    case 3
    have e: "endswith (render (dest @ [''data.tar.zst''])) ''.tar.zst''"
      by (rule rend) (simp add: suffix_to_prefix)
    have "guess_extractor (render (dest @ [''data.tar.zst''])) = Some ''tzst''"
      by (simp add: guess_extractor_def suffix_to_prefix excl [OF e] e)
    with 3 show ?thesis by (simp add: get_archive_opener_def)
  next
    case 4
    have e: "endswith (render (dest @ [''data.tar.bz2''])) ''.tar.bz2''"
      by (rule rend) (simp add: suffix_to_prefix)
    have "guess_extractor (render (dest @ [''data.tar.bz2''])) = Some ''tbz2''"
      by (simp add: guess_extractor_def suffix_to_prefix excl [OF e] e)
    with 4 show ?thesis by (simp add: get_archive_opener_def)
  next
    case 5
    have e: "endswith (render (dest @ [''data.tar.lzma''])) ''.tar.lzma''"
      by (rule rend) (simp add: suffix_to_prefix)
    have "guess_extractor (render (dest @ [''data.tar.lzma''])) = Some ''txz''"
      by (simp add: guess_extractor_def suffix_to_prefix excl [OF e] e)
    with 5 show ?thesis by (simp add: get_archive_opener_def)
  next
    case 6
    have e: "endswith (render (dest @ [''data.tar''])) ''.tar''"
      by (rule rend) (simp add: suffix_to_prefix)
    have "guess_extractor (render (dest @ [''data.tar''])) = Some ''tar''"
      by (simp add: guess_extractor_def e)
    with 6 show ?thesis by (simp add: get_archive_opener_def)
  qed
  then show ?case by (simp add: resolve_def del: append.simps)
qed

subsection \<open>Environments and file systems of the examples\<close>

text \<open>
  An environment without any external program, in which no archive can be read, and
  the variants of it used below.
\<close>

definition env0 :: env where
  "env0 =
     \<lparr>RUNTIME_DIR = [''opt'', ''runtime''],
      which = (\<lambda>exec_name. None),
      subprocess_call = (\<lambda>fs command. (0, fs)),
      tarfile_extractall = (\<lambda>fs archive mode dest. Inl (TarReadError ''file could not be opened'')),
      gzip_decompress = (\<lambda>b. Inr b),
      merge_folders = (\<lambda>fs src dst. Inl (OSError ''merge refused'')),
      uuid4 = (\<lambda>n. if n = 0 then 0x1a2b3c4d5e6f47089a0b1c2d3e4f5061
                     else 0x9f8e7d6c5b4a43210fedcba987654321)\<rparr>"

text \<open>
  The archive tool \<^verbatim>\<open>7z\<close> is on the \<^verbatim>\<open>PATH\<close>; it writes one truncated file into
  its output directory and exits with code 2.
\<close>

definition env_7z_fails :: env where
  "env_7z_fails =
     env0\<lparr>which := (\<lambda>exec_name. if exec_name = ''7z'' then Some [''usr'', ''bin'', ''7z''] else None),
          subprocess_call := (\<lambda>fs command.
            case command ! 3 of
              OptPath opt dest \<Rightarrow> (2, put dest (Dir [(''part.bin'', File ''truncated'')]) fs)
            | _ \<Rightarrow> (2, fs))\<rparr>"

definition fs_zip :: node where
  "fs_zip = Dir [(''src'', Dir [(''a.zip'', File ''PK'')]), (''d'', Dir [])]"

text \<open>A \<^verbatim>\<open>tarfile\<close> that unpacks every archive to the given entries.\<close>

definition env_tar :: "(string \<times> node) list \<Rightarrow> env" where
  "env_tar content =
     env0\<lparr>tarfile_extractall := (\<lambda>fs archive mode dest. Inr (put dest (Dir content) fs))\<rparr>"

definition fs_data_file :: node where
  "fs_data_file =
     Dir [(''src'', Dir [(''a.tar'', File ''TAR'')]), (''d'', Dir [(''data'', File ''old'')])]"

definition fs_staged_dir :: node where
  "fs_staged_dir =
     Dir [(''d'', Dir [(''data'', File ''old''),
                       (''.extract-1a2b3c4d'', Dir [(''data'', Dir [(''x'', File ''1'')])])])]"

text \<open>
  No \<^verbatim>\<open>innoextract\<close> anywhere, \<^verbatim>\<open>7z\<close> and \<^verbatim>\<open>7za\<close> on the \<^verbatim>\<open>PATH\<close>; the test
  mode accepts every file and the extraction writes one file.
\<close>

definition env_exe :: env where
  "env_exe =
     env0\<lparr>which := (\<lambda>exec_name. if exec_name = ''7z'' \<or> exec_name = ''7za''
                                 then Some [''usr'', ''bin'', exec_name] else None),
          subprocess_call := (\<lambda>fs command.
            case command ! 1 of
              Lit mode \<Rightarrow>
                if mode = ''t'' then (0, fs)
                else (case command ! 3 of
                        OptPath opt dest \<Rightarrow> (0, put dest (Dir [(''game.dat'', File ''payload'')]) fs)
                      | _ \<Rightarrow> (1, fs))
            | _ \<Rightarrow> (1, fs))\<rparr>"

definition fs_exe :: node where
  "fs_exe =
     Dir [(''opt'', Dir [(''runtime'', Dir [])]),
          (''src'', Dir [(''setup.exe'', File ''MZ'')]),
          (''d'', Dir [])]"












subsection \<open>Paths outside a directory\<close>








section \<open>Properties\<close>

subsection \<open>Looking up after a change of the tree\<close>

lemma lookup_append: "lookup t (p @ q) = (case lookup t p of None \<Rightarrow> None | Some c \<Rightarrow> lookup c q)"
proof (induction p arbitrary: t)
  case Nil show ?case by simp
next
  case (Cons x p)
  show ?case by (cases t) (simp_all add: Cons.IH split: option.split)
qed

lemma lookup_put_same:
  "p \<noteq> [] \<Longrightarrow> is_dir (lookup t (butlast p)) \<Longrightarrow> lookup (put p v t) p = Some v"
proof (induction p arbitrary: t)
  case Nil then show ?case by simp
next
  case (Cons x p)
  show ?case
  proof (cases t)
    case (File b)
    with Cons.prems show ?thesis by (cases p) (simp_all add: is_dir_def)
  next
    case (Dir es)
    show ?thesis
    proof (cases "p = []")
      case True
      with Dir show ?thesis by (simp add: update_conv')
    next
      case False
      with Cons.prems Dir obtain c where c: "map_of es x = Some c" "is_dir (lookup c (butlast p))"
        by (auto simp: is_dir_def split: option.splits)
      with Cons.IH [OF False c(2)] Dir False show ?thesis
        by (simp add: update_conv')
    qed
  qed
qed

lemma lookup_put_below:
  "p \<noteq> [] \<Longrightarrow> is_dir (lookup t (butlast p)) \<Longrightarrow> lookup (put p v t) (p @ r) = lookup v r"
  by (simp add: lookup_append lookup_put_same)

lemma lookup_put_indep:
  "\<not> prefix p q \<Longrightarrow> \<not> prefix q p \<Longrightarrow> lookup (put p v t) q = lookup t q"
proof (induction p arbitrary: t q)
  case Nil then show ?case by simp
next
  case (Cons x p)
  from Cons.prems obtain y q' where q: "q = y # q'" by (cases q) auto
  show ?case
  proof (cases t)
    case (File b) then show ?thesis by simp
  next
    case (Dir es)
    show ?thesis
    proof (cases "x = y")
      case False
      with Dir q show ?thesis by (simp add: update_conv' split: option.split)
    next
      case True
      with Cons.prems q have np: "\<not> prefix p q'" "\<not> prefix q' p" by simp_all
      then have "p \<noteq> []" by auto
      with Dir q True Cons.IH [OF np] show ?thesis
        by (simp add: update_conv' split: option.split)
    qed
  qed
qed

lemma lookup_del_below: "p \<noteq> [] \<Longrightarrow> lookup (del p t) (p @ r) = None"
proof (induction p arbitrary: t)
  case Nil then show ?case by simp
next
  case (Cons x p)
  show ?case
  proof (cases t)
    case (File b) then show ?thesis by simp
  next
    case (Dir es)
    show ?thesis
    proof (cases "p = []")
      case True
      with Dir show ?thesis by (simp add: delete_conv')
    next
      case False
      with Dir Cons.IH [OF False] show ?thesis
        by (simp add: update_conv' split: option.split)
    qed
  qed
qed

lemma lookup_del_same: "p \<noteq> [] \<Longrightarrow> lookup (del p t) p = None"
  using lookup_del_below [of p t "[]"] by simp

lemma lookup_del_indep:
  "\<not> prefix p q \<Longrightarrow> \<not> prefix q p \<Longrightarrow> lookup (del p t) q = lookup t q"
proof (induction p arbitrary: t q)
  case Nil then show ?case by simp
next
  case (Cons x p)
  from Cons.prems obtain y q' where q: "q = y # q'" by (cases q) auto
  show ?case
  proof (cases t)
    case (File b) then show ?thesis by simp
  next
    case (Dir es)
    show ?thesis
    proof (cases "x = y")
      case False
      with Dir q show ?thesis by (simp add: update_conv' delete_conv' split: option.split)
    next
      case True
      with Cons.prems q have np: "\<not> prefix p q'" "\<not> prefix q' p" by simp_all
      then have "p \<noteq> []" by auto
      with Dir q True Cons.IH [OF np] show ?thesis
        by (simp add: update_conv' split: option.split)
    qed
  qed
qed

lemma lookup_put_above:
  "r \<noteq> [] \<Longrightarrow> lookup (put (q @ r) v t) q = map_option (put r v) (lookup t q)"
proof (induction q arbitrary: t)
  case Nil then show ?case by simp
next
  case (Cons x q)
  show ?case
  proof (cases t)
    case (File b) then show ?thesis by simp
  next
    case (Dir es)
    with Cons show ?thesis by (simp add: update_conv' split: option.split)
  qed
qed

lemma lookup_del_above:
  "r \<noteq> [] \<Longrightarrow> lookup (del (q @ r) t) q = map_option (del r) (lookup t q)"
proof (induction q arbitrary: t)
  case Nil then show ?case by simp
next
  case (Cons x q)
  show ?case
  proof (cases t)
    case (File b) then show ?thesis by simp
  next
    case (Dir es)
    with Cons show ?thesis by (simp add: update_conv' split: option.split)
  qed
qed

subsection \<open>Suffixes\<close>

lemma endswith_excl:
  "endswith p a \<Longrightarrow> \<not> suffix a b \<Longrightarrow> \<not> suffix b a \<Longrightarrow> \<not> endswith p b"
  unfolding endswith_def by (meson suffix_same_cases)

lemma guess_tar: "endswith p ''.tar'' \<Longrightarrow> guess_extractor p = Some ''tar''"
  by (simp add: guess_extractor_def)

lemma guess_tar_gz: "endswith p ''.tar.gz'' \<Longrightarrow> guess_extractor p = Some ''tgz''"
  by (simp add: guess_extractor_def suffix_to_prefix endswith_excl [of p "''.tar.gz''"])

lemma guess_tgz: "endswith p ''.tgz'' \<Longrightarrow> guess_extractor p = Some ''tgz''"
  by (simp add: guess_extractor_def suffix_to_prefix endswith_excl [of p "''.tgz''"])

lemma guess_tar_xz: "endswith p ''.tar.xz'' \<Longrightarrow> guess_extractor p = Some ''txz''"
  by (simp add: guess_extractor_def suffix_to_prefix endswith_excl [of p "''.tar.xz''"])

lemma guess_txz: "endswith p ''.txz'' \<Longrightarrow> guess_extractor p = Some ''txz''"
  by (simp add: guess_extractor_def suffix_to_prefix endswith_excl [of p "''.txz''"])

lemma guess_tar_lzma: "endswith p ''.tar.lzma'' \<Longrightarrow> guess_extractor p = Some ''txz''"
  by (simp add: guess_extractor_def suffix_to_prefix endswith_excl [of p "''.tar.lzma''"])

lemma guess_tar_bz2: "endswith p ''.tar.bz2'' \<Longrightarrow> guess_extractor p = Some ''tbz2''"
  by (simp add: guess_extractor_def suffix_to_prefix endswith_excl [of p "''.tar.bz2''"])

lemma guess_tbz2: "endswith p ''.tbz2'' \<Longrightarrow> guess_extractor p = Some ''tbz2''"
  by (simp add: guess_extractor_def suffix_to_prefix endswith_excl [of p "''.tbz2''"])

lemma guess_tbz: "endswith p ''.tbz'' \<Longrightarrow> guess_extractor p = Some ''tbz2''"
  by (simp add: guess_extractor_def suffix_to_prefix endswith_excl [of p "''.tbz''"])

lemma guess_tar_zst: "endswith p ''.tar.zst'' \<Longrightarrow> guess_extractor p = Some ''tzst''"
  by (simp add: guess_extractor_def suffix_to_prefix endswith_excl [of p "''.tar.zst''"])

lemma guess_tzst: "endswith p ''.tzst'' \<Longrightarrow> guess_extractor p = Some ''tzst''"
  by (simp add: guess_extractor_def suffix_to_prefix endswith_excl [of p "''.tzst''"])

lemma guess_gz:
  "endswith p ''.gz'' \<Longrightarrow> \<not> endswith p ''.tar.gz'' \<Longrightarrow> guess_extractor p = Some ''gzip''"
  by (simp add: guess_extractor_def suffix_to_prefix endswith_excl [of p "''.gz''"])

lemma guess_exe: "endswith p ''.exe'' \<Longrightarrow> guess_extractor p = Some ''exe''"
  by (simp add: guess_extractor_def suffix_to_prefix endswith_excl [of p "''.exe''"])

lemma guess_deb: "endswith p ''.deb'' \<Longrightarrow> guess_extractor p = Some ''deb''"
  by (simp add: guess_extractor_def suffix_to_prefix endswith_excl [of p "''.deb''"])

lemma guess_AppImage: "endswith p ''.AppImage'' \<Longrightarrow> guess_extractor p = Some ''AppImage''"
  by (simp add: guess_extractor_def suffix_to_prefix endswith_excl [of p "''.AppImage''"])

lemma guess_none:
  "\<not> endswith p ''.tar'' \<Longrightarrow> \<not> endswith p ''.tar.gz'' \<Longrightarrow> \<not> endswith p ''.tgz'' \<Longrightarrow>
   \<not> endswith p ''.tar.xz'' \<Longrightarrow> \<not> endswith p ''.txz'' \<Longrightarrow> \<not> endswith p ''.tar.lzma'' \<Longrightarrow>
   \<not> endswith p ''.tar.bz2'' \<Longrightarrow> \<not> endswith p ''.tbz2'' \<Longrightarrow> \<not> endswith p ''.tbz'' \<Longrightarrow>
   \<not> endswith p ''.tar.zst'' \<Longrightarrow> \<not> endswith p ''.tzst'' \<Longrightarrow> \<not> endswith p ''.gz'' \<Longrightarrow>
   \<not> endswith p ''.exe'' \<Longrightarrow> \<not> endswith p ''.deb'' \<Longrightarrow> \<not> endswith p ''.AppImage'' \<Longrightarrow>
   guess_extractor p = None"
  by (simp add: guess_extractor_def)

text \<open>
  Claim C3. For every path, \<open>guess_extractor\<close> returns the documented kind for each
  suffix of the table: \<open>.tar\<close> gives tar; \<open>.tar.gz\<close> and \<open>.tgz\<close> give tgz;
  \<open>.tar.xz\<close>, \<open>.txz\<close> and \<open>.tar.lzma\<close> give txz; \<open>.tar.bz2\<close>, \<open>.tbz2\<close> and
  \<open>.tbz\<close> give tbz2; \<open>.tar.zst\<close> and \<open>.tzst\<close> give tzst; a \<open>.gz\<close> that is not a
  \<open>.tar.gz\<close> gives gzip; \<open>.exe\<close> gives exe; \<open>.deb\<close> gives deb; \<open>.AppImage\<close> gives
  AppImage; and a path with none of these suffixes gives \<open>None\<close>.
\<close>

theorem guess_extractor_table:
  "(endswith p ''.tar'' \<longrightarrow> guess_extractor p = Some ''tar'') \<and>
   (endswith p ''.tar.gz'' \<or> endswith p ''.tgz'' \<longrightarrow> guess_extractor p = Some ''tgz'') \<and>
   (endswith p ''.tar.xz'' \<or> endswith p ''.txz'' \<or> endswith p ''.tar.lzma''
      \<longrightarrow> guess_extractor p = Some ''txz'') \<and>
   (endswith p ''.tar.bz2'' \<or> endswith p ''.tbz2'' \<or> endswith p ''.tbz''
      \<longrightarrow> guess_extractor p = Some ''tbz2'') \<and>
   (endswith p ''.tar.zst'' \<or> endswith p ''.tzst'' \<longrightarrow> guess_extractor p = Some ''tzst'') \<and>
   (endswith p ''.gz'' \<and> \<not> endswith p ''.tar.gz'' \<longrightarrow> guess_extractor p = Some ''gzip'') \<and>
   (endswith p ''.exe'' \<longrightarrow> guess_extractor p = Some ''exe'') \<and>
   (endswith p ''.deb'' \<longrightarrow> guess_extractor p = Some ''deb'') \<and>
   (endswith p ''.AppImage'' \<longrightarrow> guess_extractor p = Some ''AppImage'') \<and>
   (\<not> endswith p ''.tar'' \<and> \<not> endswith p ''.tar.gz'' \<and> \<not> endswith p ''.tgz'' \<and>
    \<not> endswith p ''.tar.xz'' \<and> \<not> endswith p ''.txz'' \<and> \<not> endswith p ''.tar.lzma'' \<and>
    \<not> endswith p ''.tar.bz2'' \<and> \<not> endswith p ''.tbz2'' \<and> \<not> endswith p ''.tbz'' \<and>
    \<not> endswith p ''.tar.zst'' \<and> \<not> endswith p ''.tzst'' \<and> \<not> endswith p ''.gz'' \<and>
    \<not> endswith p ''.exe'' \<and> \<not> endswith p ''.deb'' \<and> \<not> endswith p ''.AppImage''
      \<longrightarrow> guess_extractor p = None)"
proof (intro conjI impI)
  assume "endswith p ''.tar''"
  then show "guess_extractor p = Some ''tar''" by (rule guess_tar)
next
  assume "endswith p ''.tar.gz'' \<or> endswith p ''.tgz''"
  then show "guess_extractor p = Some ''tgz''"
    by (rule disjE) (erule guess_tar_gz, erule guess_tgz)
next
  assume "endswith p ''.tar.xz'' \<or> endswith p ''.txz'' \<or> endswith p ''.tar.lzma''"
  then show "guess_extractor p = Some ''txz''"
    by (elim disjE) (erule guess_tar_xz, erule guess_txz, erule guess_tar_lzma)
next
  assume "endswith p ''.tar.bz2'' \<or> endswith p ''.tbz2'' \<or> endswith p ''.tbz''"
  then show "guess_extractor p = Some ''tbz2''"
    by (elim disjE) (erule guess_tar_bz2, erule guess_tbz2, erule guess_tbz)
next
  assume "endswith p ''.tar.zst'' \<or> endswith p ''.tzst''"
  then show "guess_extractor p = Some ''tzst''"
    by (rule disjE) (erule guess_tar_zst, erule guess_tzst)
next
  assume "endswith p ''.gz'' \<and> \<not> endswith p ''.tar.gz''"
  then show "guess_extractor p = Some ''gzip''"
    by (elim conjE) (erule (1) guess_gz)
next
  assume "endswith p ''.exe''"
  then show "guess_extractor p = Some ''exe''" by (rule guess_exe)
next
  assume "endswith p ''.deb''"
  then show "guess_extractor p = Some ''deb''" by (rule guess_deb)
next
  assume "endswith p ''.AppImage''"
  then show "guess_extractor p = Some ''AppImage''" by (rule guess_AppImage)
next
  assume "\<not> endswith p ''.tar'' \<and> \<not> endswith p ''.tar.gz'' \<and> \<not> endswith p ''.tgz'' \<and>
    \<not> endswith p ''.tar.xz'' \<and> \<not> endswith p ''.txz'' \<and> \<not> endswith p ''.tar.lzma'' \<and>
    \<not> endswith p ''.tar.bz2'' \<and> \<not> endswith p ''.tbz2'' \<and> \<not> endswith p ''.tbz'' \<and>
    \<not> endswith p ''.tar.zst'' \<and> \<not> endswith p ''.tzst'' \<and> \<not> endswith p ''.gz'' \<and>
    \<not> endswith p ''.exe'' \<and> \<not> endswith p ''.deb'' \<and> \<not> endswith p ''.AppImage''"
  then show "guess_extractor p = None"
    by (elim conjE) (rule guess_none)
qed

text \<open>The table at one path of each kind.\<close>

theorem guess_extractor_table_witness:
  "guess_extractor ''/tmp/game.tar.gz'' = Some ''tgz'' \<and>
   guess_extractor ''/tmp/notes.gz'' = Some ''gzip'' \<and>
   guess_extractor ''/tmp/setup.exe'' = Some ''exe'' \<and>
   guess_extractor ''/tmp/readme.txt'' = None"
proof -
  have "guess_extractor ''/tmp/game.tar.gz'' = Some ''tgz''"
    using guess_extractor_table [of "''/tmp/game.tar.gz''"]
    by (simp add: endswith_def suffix_to_prefix)
  moreover have "guess_extractor ''/tmp/notes.gz'' = Some ''gzip''"
    using guess_extractor_table [of "''/tmp/notes.gz''"]
    by (simp add: endswith_def suffix_to_prefix)
  moreover have "guess_extractor ''/tmp/setup.exe'' = Some ''exe''"
    using guess_extractor_table [of "''/tmp/setup.exe''"]
    by (simp add: endswith_def suffix_to_prefix)
  moreover have "guess_extractor ''/tmp/readme.txt'' = None"
    using guess_extractor_table [of "''/tmp/readme.txt''"]
    by (simp add: endswith_def suffix_to_prefix)
  ultimately show ?thesis by (intro conjI)
qed

subsection \<open>The staging directory\<close>

lemma hex_pad_numeral:
  "hex_pad (numeral k) n = hex_pad (pred_numeral k) (n div 16) @ [hex_digit (n mod 16)]"
  by (subst numeral_eq_Suc) simp

lemma short_id_0: "short_id 0x1a2b3c4d5e6f47089a0b1c2d3e4f5061 = ''1a2b3c4d''"
  by (simp add: short_id_def uuid_str_def hex_pad_numeral hex_digit_def)


lemma length_hex_pad: "length (hex_pad w n) = w"
  by (induction w arbitrary: n) simp_all

lemma hex_digit_lower: "d < 16 \<Longrightarrow> is_lower_hex (hex_digit d)"
  unfolding is_lower_hex_def hex_digit_def by (rule nth_mem) simp

lemma hex_pad_lower: "list_all is_lower_hex (hex_pad w n)"
  by (induction w arbitrary: n) (simp_all add: hex_digit_lower)

lemma short_id_hex: "length (short_id u) = 8 \<and> list_all is_lower_hex (short_id u)"
proof -
  have "short_id u = take 8 (hex_pad 32 (unat u))"
    by (simp add: short_id_def uuid_str_def Let_def length_hex_pad)
  moreover have "list_all is_lower_hex (take 8 (hex_pad 32 (unat u)))"
    using hex_pad_lower [of 32 "unat u"] by (simp add: list_all_iff) (meson in_set_takeD)
  ultimately show ?thesis by (simp add: length_hex_pad)
qed

text \<open>
  Claim C2, as the code has it. For every destination directory, the staging
  directory is a direct child of the destination directory itself (its parent is the
  destination, not the parent of the destination), and its name is \<open>.extract-\<close>
  followed by exactly 8 lowercase hexadecimal characters.
\<close>

theorem staging_dir_inside_destination:
  "butlast (staging_dir env w to_directory) = to_directory \<and>
   last (staging_dir env w to_directory) = ''.extract-'' @ fst (random_id env w) \<and>
   length (fst (random_id env w)) = 8 \<and>
   list_all is_lower_hex (fst (random_id env w))"
  using short_id_hex [of "uuid4 env (draws w)"]
  by (simp add: staging_dir_def random_id_def)

text \<open>
  Claim C2 as stated fails: for the destination \<^verbatim>\<open>/opt/games\<close> the parent of the
  staging directory is \<^verbatim>\<open>/opt/games\<close>, not \<^verbatim>\<open>/opt\<close>.
\<close>

theorem staging_dir_not_in_parent:
  "butlast (staging_dir env0 \<lparr>files = Dir [], draws = 0\<rparr> [''opt'', ''games''])
     \<noteq> butlast [''opt'', ''games'']"
  by (simp add: staging_dir_def)

subsection \<open>Supported 7-zip formats\<close>

text \<open>
  Claim C9 at a path without extension and without hint: the function returns
  \<^verbatim>\<open>None\<close>, which is not the boolean \<^verbatim>\<open>False\<close> the claim promises.
\<close>

theorem is_7zip_supported_no_extension: "is_7zip_supported ''README'' None = None"
  by (simp add: is_7zip_supported_def splitext_def rfind_def)

text \<open>With a hint, and with an extension, the result is the boolean of the claim.\<close>

lemma is_7zip_supported_hint:
  "e \<noteq> [] \<Longrightarrow> is_7zip_supported p (Some e) = Some (lower e \<in> set supported_extractors)"
  by (simp add: is_7zip_supported_def)

lemma is_7zip_supported_extension:
  "snd (splitext p) \<noteq> [] \<Longrightarrow>
   is_7zip_supported p None =
     Some (lower (lstrip_dot (snd (splitext p))) \<in> set supported_extractors)"
  by (simp add: is_7zip_supported_def Let_def)

lemma is_7zip_supported_zip: "is_7zip_supported ''/tmp/Game.ZIP'' None = Some True"
  by (simp add: is_7zip_supported_def splitext_def rfind_def lstrip_dot_def lower_def
      lower_char_def supported_extractors_def upt_rec)

subsection \<open>Evaluating the model\<close>

lemmas os_defs = os_path_exists_def os_path_isfile_def os_path_isdir_def os_listdir_def
  os_remove_def os_rmdir_def os_rename_def shutil_move_def shutil_copy_def os_makedirs_def
  os_removedirs_def open_wb_def

lemmas model_defs = random_id_def path_exists_def find_executable_def create_folder_def
  delete_folder_def extract_7zip_def get_innoextract_path_def check_inno_exe_def
  decompress_gog_def extract_gog_def extract_exe_def extract_AppImage_def gzip_open_read_def
  decompress_gz_def place_single_file_def merge_staged_def caught_def resolve_def
  staging_dir_def get_archive_opener_def guess_extractor_def endswith_def startswith_def
  suffix_to_prefix render_def extract_archive.simps do_extract.simps

subsection \<open>Exit codes and exceptions of the backends\<close>

text \<open>
  Claim C1 at an archive for which \<^verbatim>\<open>7z\<close> exits with code 2 after writing a
  truncated file: \<^verbatim>\<open>extract_archive\<close> returns normally and merges the truncated
  file into the destination.
\<close>

theorem extract_7zip_exit_code_dropped:
  "fst (subprocess_call env_7z_fails fs_zip
          [Path [''usr'', ''bin'', ''7z''], Lit ''x'', Path [''src'', ''a.zip''],
           OptPath ''-o'' [''d'', ''.extract-1a2b3c4d''], Lit ''-aoa'']) = 2 \<and>
   extract_archive env_7z_fails \<lparr>files = fs_zip, draws = 0\<rparr> [''src'', ''a.zip''] [''d''] True None =
     Inr (([''src'', ''a.zip''], [''d'']),
          \<lparr>files = Dir [(''src'', Dir [(''a.zip'', File ''PK'')]),
                         (''d'', Dir [(''part.bin'', File ''truncated'')])],
           draws = 1\<rparr>)"
  by (simp add: model_defs os_defs env_7z_fails_def env0_def fs_zip_def short_id_0)

text \<open>
  Whatever the exit code, \<^verbatim>\<open>extract_7zip\<close> returns normally once the program is
  found.
\<close>

lemma extract_7zip_returns:
  "which env ''7z'' = Some p \<Longrightarrow> \<exists>fs'. extract_7zip env fs path dest archive_type = Inr fs'"
  by (simp add: extract_7zip_def find_executable_def Let_def)

text \<open>
  Claim C7. When the backend step of \<^verbatim>\<open>extract_archive\<close> raises an
  \<^verbatim>\<open>OSError\<close>, a \<^verbatim>\<open>zlib.error\<close>, a \<^verbatim>\<open>tarfile.ReadError\<close> or an
  \<^verbatim>\<open>EOFError\<close> with message \<open>m\<close>, \<^verbatim>\<open>extract_archive\<close> raises
  \<^verbatim>\<open>ExtractError\<close> with the same message.
\<close>

theorem extract_archive_wraps_backend_error:
  assumes "do_extract env (snd (random_id env w)) path (staging_dir env w to_directory)
             (fst (get_archive_opener (resolve path extractor)))
             (snd (get_archive_opener (resolve path extractor)))
             (resolve path extractor) = Inl ex"
    and "ex = OSError m \<or> ex = ZlibError m \<or> ex = TarReadError m \<or> ex = EOFError m"
  shows "extract_archive env w path to_directory merge_single extractor = Inl (ExtractError m)"
  using assms by (auto simp: extract_archive.simps caught_def)

text \<open>A tar archive that cannot be read.\<close>

theorem extract_archive_wraps_backend_error_witness:
  "do_extract env0 (snd (random_id env0 \<lparr>files = fs_zip, draws = 0\<rparr>)) [''src'', ''a.tar'']
     (staging_dir env0 \<lparr>files = fs_zip, draws = 0\<rparr> [''d''])
     (fst (get_archive_opener (resolve [''src'', ''a.tar''] None)))
     (snd (get_archive_opener (resolve [''src'', ''a.tar''] None)))
     (resolve [''src'', ''a.tar''] None) = Inl (TarReadError ''file could not be opened'') \<and>
   extract_archive env0 \<lparr>files = fs_zip, draws = 0\<rparr> [''src'', ''a.tar''] [''d''] True None =
     Inl (ExtractError ''file could not be opened'')"
proof -
  have h: "do_extract env0 (snd (random_id env0 \<lparr>files = fs_zip, draws = 0\<rparr>)) [''src'', ''a.tar'']
     (staging_dir env0 \<lparr>files = fs_zip, draws = 0\<rparr> [''d''])
     (fst (get_archive_opener (resolve [''src'', ''a.tar''] None)))
     (snd (get_archive_opener (resolve [''src'', ''a.tar''] None)))
     (resolve [''src'', ''a.tar''] None) = Inl (TarReadError ''file could not be opened'')"
    by (simp add: model_defs env0_def)
  from h extract_archive_wraps_backend_error [OF h, of "''file could not be opened''" True]
  show ?thesis by simp
qed

text \<open>
  Claim C8. When \<^verbatim>\<open>innoextract\<close> cannot be located, \<^verbatim>\<open>check_inno_exe\<close> returns
  \<^verbatim>\<open>False\<close> and raises nothing, so \<^verbatim>\<open>extract_exe\<close> is its generic-archive
  branch (test with \<^verbatim>\<open>7za\<close>, then extract with \<^verbatim>\<open>7z\<close>); the GOG extraction
  \<^verbatim>\<open>extract_gog\<close> fails with a \<^verbatim>\<open>RuntimeError\<close> and \<^verbatim>\<open>decompress_gog\<close> with
  the \<^verbatim>\<open>MissingExecutableError\<close>.
\<close>

theorem missing_innoextract:
  assumes "get_innoextract_path env fs = Inl (MissingExecutableError m)"
  shows "check_inno_exe env fs path = Inr (False, fs) \<and>
         extract_exe env fs path dest =
           (case (if \<not> path_exists fs (RUNTIME_DIR env @ [''p7zip'', ''7za''])
                  then find_executable env ''7za''
                  else Inr (RUNTIME_DIR env @ [''p7zip'', ''7za''])) of
              Inl e \<Rightarrow> Inl e
            | Inr p7zip_path \<Rightarrow>
                (let r = subprocess_call env fs [Path p7zip_path, Lit ''t'', Path path]
                 in if fst r = 0 then extract_7zip env (snd r) path dest None
                    else Inl (RuntimeError ''specified exe is not an archive or GOG setup file''))) \<and>
         extract_gog env fs path dest = Inl (RuntimeError ''specified exe is not a GOG setup file'') \<and>
         decompress_gog env fs path dest = Inl (MissingExecutableError m)"
  using assms by (simp add: check_inno_exe_def extract_exe_def extract_gog_def decompress_gog_def)

text \<open>An installer that \<^verbatim>\<open>7za\<close> accepts, on a system without \<^verbatim>\<open>innoextract\<close>.\<close>

theorem missing_innoextract_witness:
  "get_innoextract_path env_exe fs_exe = Inl (MissingExecutableError ''innoextract'') \<and>
   check_inno_exe env_exe fs_exe [''src'', ''setup.exe''] = Inr (False, fs_exe) \<and>
   extract_exe env_exe fs_exe [''src'', ''setup.exe''] [''d'', ''out''] =
     Inr (Dir [(''opt'', Dir [(''runtime'', Dir [])]),
               (''src'', Dir [(''setup.exe'', File ''MZ'')]),
               (''d'', Dir [(''out'', Dir [(''game.dat'', File ''payload'')])])]) \<and>
   extract_gog env_exe fs_exe [''src'', ''setup.exe''] [''d'', ''out''] =
     Inl (RuntimeError ''specified exe is not a GOG setup file'') \<and>
   decompress_gog env_exe fs_exe [''src'', ''setup.exe''] [''d'', ''out''] =
     Inl (MissingExecutableError ''innoextract'')"
proof -
  have h: "get_innoextract_path env_exe fs_exe = Inl (MissingExecutableError ''innoextract'')"
    by (simp add: get_innoextract_path_def os_listdir_def find_executable_def env_exe_def
        env0_def fs_exe_def)
  have g: "extract_exe env_exe fs_exe [''src'', ''setup.exe''] [''d'', ''out''] =
     Inr (Dir [(''opt'', Dir [(''runtime'', Dir [])]),
               (''src'', Dir [(''setup.exe'', File ''MZ'')]),
               (''d'', Dir [(''out'', Dir [(''game.dat'', File ''payload'')])])])"
    using missing_innoextract [OF h, of "[''src'', ''setup.exe'']" "[''d'', ''out'']"]
    by (simp add: path_exists_def os_path_exists_def find_executable_def extract_7zip_def
        env_exe_def env0_def fs_exe_def)
  from h g missing_innoextract [OF h, of "[''src'', ''setup.exe'']" "[''d'', ''out'']"]
  show ?thesis by simp
qed

subsection \<open>Single steps of the file system\<close>

lemma os_path_isdir_iff: "os_path_isdir fs p = is_dir (lookup fs p)"
  by (simp add: os_path_isdir_def is_dir_def)

lemma lookup_parent:
  "lookup t (p @ [x]) = Some v \<Longrightarrow> \<exists>es. lookup t p = Some (Dir es) \<and> map_of es x = Some v"
proof -
  assume a: "lookup t (p @ [x]) = Some v"
  have e: "lookup t (p @ [x]) = (case lookup t p of None \<Rightarrow> None | Some c \<Rightarrow> lookup c [x])"
    by (rule lookup_append)
  show ?thesis
  proof (cases "lookup t p")
    case None
    with a e show ?thesis by simp
  next
    case (Some c)
    with a e show ?thesis by (cases c) (simp_all split: option.splits)
  qed
qed

lemma del_kind: "r \<noteq> [] \<Longrightarrow> is_dir (Some (del r c)) = is_dir (Some c)"
  by (cases r; cases c) (simp_all add: is_dir_def split: option.split)

lemma put_kind: "r \<noteq> [] \<Longrightarrow> is_dir (Some (put r v c)) = is_dir (Some c)"
  by (cases r; cases c) (simp_all add: is_dir_def split: option.split)

lemma is_dir_del_above: "r \<noteq> [] \<Longrightarrow> is_dir (lookup (del (q @ r) t) q) = is_dir (lookup t q)"
  by (cases "lookup t q") (simp_all add: lookup_del_above del_kind)

lemma is_dir_put_above: "r \<noteq> [] \<Longrightarrow> is_dir (lookup (put (q @ r) v t) q) = is_dir (lookup t q)"
  by (cases "lookup t q") (simp_all add: lookup_put_above put_kind)

lemma os_remove_file: "lookup fs p = Some (File b) \<Longrightarrow> os_remove fs p = Inr (del p fs)"
  by (simp add: os_remove_def)

lemma os_rename_fresh:
  "lookup fs src = Some n \<Longrightarrow> \<not> prefix src dst \<Longrightarrow> is_dir (lookup fs (butlast dst)) \<Longrightarrow>
   lookup fs dst = None \<Longrightarrow> os_rename fs src dst = Inr (put dst n (del src fs))"
  by (auto simp: os_rename_def os_path_isdir_iff)

lemma shutil_move_onto_fresh:
  "lookup fs dst = None \<Longrightarrow> shutil_move fs src dst = os_rename fs src dst"
  by (simp add: shutil_move_def os_path_isdir_def)


lemma below_not_prefix: "r \<noteq> [] \<Longrightarrow> \<not> prefix (d @ r @ [x]) (d @ [x])"
  by (cases r) simp_all

lemma is_dir_parent: "lookup t (p @ [x]) = Some v \<Longrightarrow> is_dir (lookup t p)"
  by (drule lookup_parent) (auto simp: is_dir_def)

subsection \<open>A staged entry over a plain file\<close>

text \<open>
  Claim C5, as the code has it. In the merge loop, when the destination path of a
  staged entry is occupied by a plain file, the destination file is deleted and the
  staged entry, file or directory alike, is moved into place: afterwards the
  destination path holds the staged entry and the staged path is gone.
  \<^verbatim>\<open>merge_folders\<close> is not called.
\<close>

theorem merge_entries_over_file:
  assumes dst: "lookup fs (to_directory @ [archive_file]) = Some (File old)"
    and src: "lookup fs (temp_path @ [archive_file]) = Some staged"
    and below: "strict_prefix to_directory temp_path"
  shows "merge_entries env fs temp_path to_directory (archive_file # rest) =
           merge_entries env
             (put (to_directory @ [archive_file]) staged
                (del (temp_path @ [archive_file]) (del (to_directory @ [archive_file]) fs)))
             temp_path to_directory rest \<and>
         lookup (put (to_directory @ [archive_file]) staged
                   (del (temp_path @ [archive_file]) (del (to_directory @ [archive_file]) fs)))
           (to_directory @ [archive_file]) = Some staged \<and>
         lookup (put (to_directory @ [archive_file]) staged
                   (del (temp_path @ [archive_file]) (del (to_directory @ [archive_file]) fs)))
           (temp_path @ [archive_file]) = None"
proof -
  from below obtain r where r: "temp_path = to_directory @ r" "r \<noteq> []"
    by (auto simp: strict_prefix_def prefix_def)
  let ?dp = "to_directory @ [archive_file]"
  let ?sp = "temp_path @ [archive_file]"
  let ?fs1 = "del ?dp fs"
  have np1: "\<not> prefix ?sp ?dp"
    using r by (simp add: below_not_prefix)
  have np2: "\<not> prefix ?dp ?sp"
  proof
    assume "prefix ?dp ?sp"
    then obtain q where "?sp = ?dp @ q" by (auto simp: prefix_def)
    with src dst lookup_append [of fs ?dp q] have "lookup (File old) q = Some staged" by simp
    moreover from \<open>?sp = ?dp @ q\<close> r have "q \<noteq> []" by auto
    ultimately show False by (cases q) simp_all
  qed
  have rm: "os_remove fs ?dp = Inr ?fs1"
    using dst by (rule os_remove_file)
  have s1: "lookup ?fs1 ?sp = Some staged"
    using np1 np2 src by (simp add: lookup_del_indep)
  have d1: "lookup ?fs1 ?dp = None"
    by (simp add: lookup_del_same)
  have "is_dir (lookup fs to_directory)"
    using dst by (rule is_dir_parent)
  then have p1: "is_dir (lookup ?fs1 to_directory)"
    by (simp add: is_dir_del_above)
  have mv: "shutil_move ?fs1 ?sp ?dp = Inr (put ?dp staged (del ?sp ?fs1))"
    using s1 np1 p1 d1 by (simp add: shutil_move_onto_fresh os_rename_fresh)
  have step: "merge_entries env fs temp_path to_directory (archive_file # rest) =
      merge_entries env (put ?dp staged (del ?sp ?fs1)) temp_path to_directory rest"
    using dst rm mv by (simp add: path_exists_def os_path_exists_def os_path_isfile_def Let_def)
  have "is_dir (lookup (del ?sp ?fs1) to_directory)"
    using p1 r is_dir_del_above [of "r @ [archive_file]" to_directory ?fs1] by simp
  then have l1: "lookup (put ?dp staged (del ?sp ?fs1)) ?dp = Some staged"
    by (simp add: lookup_put_same)
  have l2: "lookup (put ?dp staged (del ?sp ?fs1)) ?sp = None"
    using np1 np2 by (simp add: lookup_put_indep lookup_del_same)
  from step l1 l2 show ?thesis by simp
qed

text \<open>A staged directory \<^verbatim>\<open>data\<close> over a destination file \<^verbatim>\<open>data\<close>.\<close>

theorem merge_entries_over_file_witness:
  "lookup fs_staged_dir ([''d''] @ [''data'']) = Some (File ''old'') \<and>
   lookup fs_staged_dir ([''d'', ''.extract-1a2b3c4d''] @ [''data'']) = Some (Dir [(''x'', File ''1'')]) \<and>
   strict_prefix [''d''] [''d'', ''.extract-1a2b3c4d''] \<and>
   merge_entries env0 fs_staged_dir [''d'', ''.extract-1a2b3c4d''] [''d''] [''data''] =
     Inr (Dir [(''d'', Dir [(''.extract-1a2b3c4d'', Dir []), (''data'', Dir [(''x'', File ''1'')])])])"
proof -
  have h1: "lookup fs_staged_dir ([''d''] @ [''data'']) = Some (File ''old'')"
    by (simp add: fs_staged_dir_def)
  have h2: "lookup fs_staged_dir ([''d'', ''.extract-1a2b3c4d''] @ [''data''])
      = Some (Dir [(''x'', File ''1'')])"
    by (simp add: fs_staged_dir_def)
  have h3: "strict_prefix [''d''] [''d'', ''.extract-1a2b3c4d'']"
    by (simp add: strict_prefix_def)
  have "merge_entries env0 fs_staged_dir [''d'', ''.extract-1a2b3c4d''] [''d''] [''data''] =
      merge_entries env0
        (put ([''d''] @ [''data'']) (Dir [(''x'', File ''1'')])
           (del ([''d'', ''.extract-1a2b3c4d''] @ [''data'']) (del ([''d''] @ [''data'']) fs_staged_dir)))
        [''d'', ''.extract-1a2b3c4d''] [''d''] []"
    using merge_entries_over_file [OF h1 h2 h3, of env0 "[]"] by (rule conjunct1)
  also have "\<dots> =
      Inr (Dir [(''d'', Dir [(''.extract-1a2b3c4d'', Dir []), (''data'', Dir [(''x'', File ''1'')])])])"
    by (simp add: fs_staged_dir_def)
  finally have "merge_entries env0 fs_staged_dir [''d'', ''.extract-1a2b3c4d''] [''d''] [''data''] =
     Inr (Dir [(''d'', Dir [(''.extract-1a2b3c4d'', Dir []), (''data'', Dir [(''x'', File ''1'')])])])" .
  with h1 h2 h3 show ?thesis by (intro conjI)
qed

text \<open>
  Claim C5 as stated fails: a staged directory \<^verbatim>\<open>data\<close> over a destination file
  \<^verbatim>\<open>data\<close> raises no error, although every call of \<^verbatim>\<open>merge_folders\<close> in this
  environment would; the directory replaces the file.
\<close>

theorem staged_directory_over_file_no_error:
  "extract_archive (env_tar [(''data'', Dir [(''x'', File ''1'')]), (''b'', File ''2'')])
     \<lparr>files = fs_data_file, draws = 0\<rparr> [''src'', ''a.tar''] [''d''] True None =
   Inr (([''src'', ''a.tar''], [''d'']),
        \<lparr>files = Dir [(''src'', Dir [(''a.tar'', File ''TAR'')]),
                       (''d'', Dir [(''data'', Dir [(''x'', File ''1'')]), (''b'', File ''2'')])],
         draws = 1\<rparr>)"
  by (simp add: model_defs os_defs env_tar_def env0_def fs_data_file_def short_id_0)

subsection \<open>Children of one directory\<close>


lemma child_del_other [simp]:
  "a \<noteq> b \<Longrightarrow> lookup (del (D @ a # r') t) (D @ b # r) = lookup t (D @ b # r)"
  by (rule lookup_del_indep) simp_all

lemma child_put_same [simp]:
  "is_dir (lookup t D) \<Longrightarrow> lookup (put (D @ [a]) v t) (D @ [a]) = Some v"
  by (rule lookup_put_same) simp_all

lemma child_del_same [simp]: "lookup (del (D @ [a]) t) (D @ [a]) = None"
  by (rule lookup_del_same) simp

lemma child_del_below [simp]: "lookup (del (D @ [a]) t) (D @ a # r) = None"
  using lookup_del_below [of "D @ [a]" t r] by simp

lemma is_dir_put_child [simp]: "is_dir (lookup (put (D @ a # r) v t) D) = is_dir (lookup t D)"
  by (rule is_dir_put_above) simp

lemma is_dir_del_child [simp]: "is_dir (lookup (del (D @ a # r) t) D) = is_dir (lookup t D)"
  by (rule is_dir_del_above) simp

lemma lookup_del_grandchild [simp]:
  "lookup (del (D @ [s, n]) t) (D @ [s]) = map_option (del [n]) (lookup t (D @ [s]))"
  using lookup_del_above [of "[n]" "D @ [s]" t] by simp





subsection \<open>A single staged file\<close>














subsection \<open>Merging into free destination paths\<close>


lemma map_of_distinct_mem: "distinct (map fst es) \<Longrightarrow> (n, x) \<in> set es \<Longrightarrow> map_of es n = Some x"
  by simp





subsection \<open>Debian packages\<close>




lemma grandchild_put_same [simp]:
  "is_dir (lookup t (D @ [a])) \<Longrightarrow> lookup (put (D @ [a, b]) v t) (D @ [a, b]) = Some v"
  using lookup_put_same [of "D @ [a, b]" t v] by (simp add: butlast_append)






subsection \<open>What an extraction leaves alone\<close>










































end
